theory Spec2Isabelle
  imports Main "HOL-Library.Sublist"
begin

section \<open>hyperglass/command/execute.py\<close>

text \<open>
  A shallow embedding of the module \<^verbatim>\<open>hyperglass.command.execute\<close>: the REST
  executors (\<^verbatim>\<open>Rest.frr\<close>, \<^verbatim>\<open>Rest.bird\<close>), the Netmiko executors
  (\<^verbatim>\<open>Netmiko.direct\<close>, \<^verbatim>\<open>Netmiko.proxied\<close>) and the orchestrator
  (\<^verbatim>\<open>Execute.parse\<close>, \<^verbatim>\<open>Execute.response\<close>).

  Python exceptions are values of \<open>pyexc\<close>; a computation that may raise and that talks
  to the network is a function from the list of operations performed so far to a
  result (\<open>Inl\<close> the exception) and the extended list. Calls of \<^verbatim>\<open>logger\<close> only
  write to the log and are left out.
\<close>

subsection \<open>Exceptions\<close>

text \<open>
  The fifteen \<^verbatim>\<open>http3.exceptions\<close> classes named in the two \<^verbatim>\<open>except\<close>
  clauses of \<^verbatim>\<open>Rest\<close>, the four names imported from \<^verbatim>\<open>netmiko\<close>, the
  built-in exceptions the module can raise, and \<open>OtherError\<close> for any exception of
  a library that no \<^verbatim>\<open>except\<close> clause of the module names.
\<close>

datatype pyexc =
    ConnectTimeout
  | CookieConflict
  | DecodingError
  | InvalidURL
  | PoolTimeout
  | ProtocolError
  | ReadTimeout
  | RedirectBodyUnavailable
  | RedirectLoop
  | ResponseClosed
  | ResponseNotRead
  | StreamConsumed
  | Timeout
  | TooManyRedirects
  | WriteTimeout
  | NetMikoAuthenticationException
  | NetMikoTimeoutException
  | NetmikoAuthError
  | NetmikoTimeoutError
  | AttributeError
  | IndexError
  | KeyError
  | TypeError
  | ValueError
  | OtherError string

subsection \<open>Python's \<^verbatim>\<open>str.split(sep)\<close> and list indexing\<close>

text \<open>
  \<^verbatim>\<open>s.split(sep)\<close> with a non-empty separator cuts \<open>s\<close> at the occurrences of
  \<open>sep\<close>, found from left to right without overlap, and always returns at least one
  piece. \<open>split_from sep acc s\<close> scans \<open>s\<close> with the piece read so far in \<open>acc\<close>
  (reversed). An empty separator raises \<^verbatim>\<open>ValueError\<close> in Python; the module only
  splits on two non-empty literals.
\<close>

function split_from :: "string \<Rightarrow> string \<Rightarrow> string \<Rightarrow> string list" where
  "split_from sep acc [] = [rev acc]"
| "split_from sep acc (c # cs) =
     (if sep \<noteq> [] \<and> prefix sep (c # cs)
      then rev acc # split_from sep [] (drop (length sep) (c # cs))
      else split_from sep (c # acc) cs)"
  by pat_completeness auto
termination
  by (relation "measure (\<lambda>(sep, acc, s). length s)") (auto simp: neq_Nil_conv)

definition split :: "string \<Rightarrow> string \<Rightarrow> pyexc + string list" where
  "split sep s = (if sep = [] then Inl ValueError else Inr (split_from sep [] s))"

text \<open>\<^verbatim>\<open>xs[i]\<close> for a non-negative literal index \<open>i\<close>.\<close>

definition index :: "'a list \<Rightarrow> nat \<Rightarrow> pyexc + 'a" where
  "index xs i = (if i < length xs then Inr (xs ! i) else Inl IndexError)"

text \<open>\<^verbatim>\<open>sep.join(pieces)\<close>, the inverse of \<^verbatim>\<open>split\<close>; the module does not call it,
  it states what \<open>split_from\<close> computes.\<close>

fun join :: "string \<Rightarrow> string list \<Rightarrow> string" where
  "join sep [] = []"
| "join sep [x] = x"
| "join sep (x # y # ys) = x @ sep @ join sep (y # ys)"

subsection \<open>\<^verbatim>\<open>Execute.parse\<close>\<close>

text \<open>
  The three statements both branches of \<^verbatim>\<open>parse\<close> share (lines 272-274 and 279-281):
  \<^verbatim>\<open>
  parsed_ipv4 = output.split(delimiter)[1]
  parsed_ipv6 = output.split(delimiter)[2]
  parsed = delimiter + parsed_ipv4 + delimiter + parsed_ipv6
  \<close>
\<close>

definition split_afi :: "string \<Rightarrow> string \<Rightarrow> pyexc + string" where
  "split_afi delimiter output =
     (case split delimiter output of
        Inl e \<Rightarrow> Inl e
      | Inr pieces4 \<Rightarrow>
          (case index pieces4 1 of
             Inl e \<Rightarrow> Inl e
           | Inr parsed_ipv4 \<Rightarrow>
               (case split delimiter output of
                  Inl e \<Rightarrow> Inl e
                | Inr pieces6 \<Rightarrow>
                    (case index pieces6 2 of
                       Inl e \<Rightarrow> Inl e
                     | Inr parsed_ipv6 \<Rightarrow>
                         Inr (delimiter @ parsed_ipv4 @ delimiter @ parsed_ipv6)))))"

text \<open>
  \<^verbatim>\<open>Execute.parse(self, output, nos)\<close>; \<open>input_type\<close> is \<^verbatim>\<open>self.input_type\<close>.
\<close>

definition parse :: "string \<Rightarrow> string \<Rightarrow> string \<Rightarrow> pyexc + string" where
  "parse input_type output nos_name =
     (if input_type \<in> set [''bgp_community'', ''bgp_aspath'']
      then
        if nos_name \<in> set [''cisco_ios'']
        then split_afi ''For address family: '' output
        else if nos_name \<in> set [''cisco_xr'']
        then split_afi ''Address Family: '' output
        else Inr output
      else Inr output)"

subsection \<open>Configuration and collaborators\<close>

text \<open>
  The objects of \<^verbatim>\<open>hyperglass.configuration\<close> and \<^verbatim>\<open>hyperglass.constants\<close>
  the module reads. Their declarations are not part of this file of the repository, so
  they are parameters of the model: every definition below takes the configuration
  \<open>cfg\<close> it runs under.
\<close>

record cred =
  cred_username :: string
  cred_password :: string

record device_config =
  dev_location :: string
  dev_address :: string
  dev_port :: nat
  dev_nos :: string
  dev_credential :: string
  dev_proxy :: "string option"

text \<open>The keyword arguments of \<^verbatim>\<open>ConnectHandler\<close>: the dictionaries \<^verbatim>\<open>nm_host\<close> and
  \<^verbatim>\<open>nm_proxy\<close>. The constant entry \<^verbatim>\<open>"global_delay_factor": 0.5\<close> is left out.\<close>

record nm_params =
  nm_host_name :: string
  nm_device_type :: string
  nm_username :: string
  nm_password :: string

text \<open>A proxy of \<^verbatim>\<open>hyperglass.configuration.proxies\<close>. \<open>proxy_ssh_command\<close> is
  \<^verbatim>\<open>device_proxy.ssh_command.format\<close>: the template, as the function that renders it
  from the keyword arguments it is given.\<close>

record proxy_config =
  proxy_address :: string
  proxy_username :: string
  proxy_password :: string
  proxy_nos :: string
  proxy_ssh_command :: "nm_params \<Rightarrow> string"

text \<open>What a method of \<^verbatim>\<open>Construct\<close> returns: the payload of a REST query, or the
  triple \<^verbatim>\<open>(location, nos, command)\<close> that \<^verbatim>\<open>Netmiko.__init__\<close> unpacks.\<close>

datatype constructed =
    Payload string
  | CommandTuple string string string

text \<open>
  Python's \<^verbatim>\<open>getattr(obj, name)\<close> finds every attribute of the object: what is stored
  on it, what its class and the bases of its class define, and what every object
  inherits from \<^verbatim>\<open>object\<close> (\<^verbatim>\<open>__doc__\<close>, \<^verbatim>\<open>__class__\<close>, \<^verbatim>\<open>__init__\<close>, ...). So
  an attribute found under a name need not be of the kind the module expects there.
  \<open>Entry x\<close> is an attribute of the expected kind: a device, a credential, a proxy, a
  query method. \<open>Other e\<close> is any other attribute; \<open>e\<close> is the exception Python raises
  when the module uses it as if it were of the expected kind (reads a field it does not
  have, calls what cannot be called with these arguments, unpacks what is not a
  triple).
\<close>

datatype 'a attribute =
    Entry 'a
  | Other pyexc

text \<open>The objects on which the module calls \<^verbatim>\<open>getattr\<close>.\<close>

datatype namespace =
    CredentialsObject
  | DevicesObject
  | ProxiesObject
  | ValidateObject
  | ConstructObject
  | RestObject

text \<open>
  \<open>credentials\<close>, \<open>devices\<close> and \<open>proxies\<close> map every attribute name found on the
  object or its class to the attribute. \<open>Construct device\<close> and \<open>Validate device\<close>
  do the same for the two collaborator objects, whose methods take
  \<^verbatim>\<open>(transport, target)\<close> and \<^verbatim>\<open>(target)\<close>; \<^verbatim>\<open>Validate\<close> is built from whatever
  \<^verbatim>\<open>getattr(devices, ...)\<close> returned. \<open>object_attrs\<close> gives, for each of these
  objects, the names that every object of the interpreter resolves, with the exception
  their use raises. \<open>messages_general\<close> is \<^verbatim>\<open>params.messages.general\<close>;
  \<open>code_valid\<close> and \<open>code_invalid\<close> are \<^verbatim>\<open>code.valid\<close> and \<^verbatim>\<open>code.invalid\<close>;
  \<open>is_rest\<close> and \<open>is_scrape\<close> are the two methods of \<^verbatim>\<open>Supported\<close>.
\<close>

record configuration =
  credentials :: "string \<rightharpoonup> cred attribute"
  devices :: "string \<rightharpoonup> device_config attribute"
  proxies :: "string \<rightharpoonup> proxy_config attribute"
  object_attrs :: "namespace \<Rightarrow> string \<rightharpoonup> pyexc"
  messages_general :: string
  code_valid :: int
  code_invalid :: int
  is_rest :: "string \<Rightarrow> bool"
  is_scrape :: "string \<Rightarrow> bool"
  Construct ::
    "device_config \<Rightarrow> string \<rightharpoonup> (string \<Rightarrow> string \<Rightarrow> constructed) attribute"
  Validate ::
    "device_config attribute \<Rightarrow> string \<rightharpoonup> (string \<Rightarrow> bool \<times> string \<times> int) attribute"

subsection \<open>The network\<close>

text \<open>
  The operations on the outside world, in the order the module performs them. A
  \<^verbatim>\<open>POST\<close> is kept with the parts of its URL, its \<^verbatim>\<open>X-API-Key\<close> header, its JSON
  body and its timeout.
\<close>

record request =
  req_address :: string
  req_port :: nat
  req_path :: string
  req_api_key :: string
  req_json :: constructed
  req_timeout :: nat

datatype op =
    Post request
  | ConnectHandler nm_params
  | WriteChannel string
  | Sleep nat
  | ReadChannel
  | Redispatch string
  | SendCommand string

text \<open>
  The world answers each operation from the operations performed before it: a
  completed HTTP response is its text and status code, a read or a command returns
  text, and every operation may raise instead.
\<close>

record world =
  http_post :: "op list \<Rightarrow> request \<Rightarrow> pyexc + string \<times> int"
  connect :: "op list \<Rightarrow> nm_params \<Rightarrow> pyexc option"
  write_channel :: "op list \<Rightarrow> string \<Rightarrow> pyexc option"
  read_channel :: "op list \<Rightarrow> pyexc + string"
  redispatch :: "op list \<Rightarrow> string \<Rightarrow> pyexc option"
  send_command :: "op list \<Rightarrow> string \<Rightarrow> pyexc + string"

type_synonym 'a io = "op list \<Rightarrow> (pyexc + 'a) \<times> op list"

definition io_return :: "'a \<Rightarrow> 'a io" where
  "io_return x = (\<lambda>h. (Inr x, h))"

definition io_raise :: "pyexc \<Rightarrow> 'a io" where
  "io_raise e = (\<lambda>h. (Inl e, h))"

definition io_bind :: "'a io \<Rightarrow> ('a \<Rightarrow> 'b io) \<Rightarrow> 'b io" where
  "io_bind m f = (\<lambda>h. case m h of (Inl e, h') \<Rightarrow> (Inl e, h') | (Inr x, h') \<Rightarrow> f x h')"

text \<open>\<^verbatim>\<open>try: m except (caught) as e: handler\<close>.\<close>

definition try_except :: "'a io \<Rightarrow> pyexc list \<Rightarrow> (pyexc \<Rightarrow> 'a io) \<Rightarrow> 'a io" where
  "try_except m caught handler =
     (\<lambda>h. case m h of
        (Inl e, h') \<Rightarrow> if e \<in> set caught then handler e h' else (Inl e, h')
      | (Inr x, h') \<Rightarrow> (Inr x, h'))"

text \<open>A pure step that may raise, such as \<^verbatim>\<open>parse\<close>.\<close>

definition io_lift :: "pyexc + 'a \<Rightarrow> 'a io" where
  "io_lift r = (\<lambda>h. (r, h))"

text \<open>
  \<^verbatim>\<open>getattr(obj, name)\<close> on an object whose own and class attributes are the map
  \<open>attrs\<close> and whose attributes inherited from \<^verbatim>\<open>object\<close> are \<open>inherited\<close>. It raises
  \<^verbatim>\<open>AttributeError\<close> only for a name that neither resolves.
\<close>

definition getattr ::
  "(string \<rightharpoonup> pyexc) \<Rightarrow> (string \<rightharpoonup> 'a attribute) \<Rightarrow> string \<Rightarrow> 'a attribute io" where
  "getattr inherited attrs name =
     (case attrs name of
        Some a \<Rightarrow> io_return a
      | None \<Rightarrow>
          (case inherited name of
             Some e \<Rightarrow> io_return (Other e)
           | None \<Rightarrow> io_raise AttributeError))"


text \<open>The first use of an attribute as what the module expects it to be.\<close>

definition expect :: "'a attribute \<Rightarrow> 'a io" where
  "expect a = (case a of Entry x \<Rightarrow> io_return x | Other e \<Rightarrow> io_raise e)"

definition of_raises :: "pyexc option \<Rightarrow> pyexc + unit" where
  "of_raises r = (case r of None \<Rightarrow> Inr () | Some e \<Rightarrow> Inl e)"

definition do_post :: "world \<Rightarrow> request \<Rightarrow> (string \<times> int) io" where
  "do_post w req = (\<lambda>h. (http_post w h req, h @ [Post req]))"

definition do_connect :: "world \<Rightarrow> nm_params \<Rightarrow> unit io" where
  "do_connect w p = (\<lambda>h. (of_raises (connect w h p), h @ [ConnectHandler p]))"

definition do_write_channel :: "world \<Rightarrow> string \<Rightarrow> unit io" where
  "do_write_channel w s = (\<lambda>h. (of_raises (write_channel w h s), h @ [WriteChannel s]))"

definition do_sleep :: "nat \<Rightarrow> unit io" where
  "do_sleep n = (\<lambda>h. (Inr (), h @ [Sleep n]))"

definition do_read_channel :: "world \<Rightarrow> string io" where
  "do_read_channel w = (\<lambda>h. (read_channel w h, h @ [ReadChannel]))"

definition do_redispatch :: "world \<Rightarrow> string \<Rightarrow> unit io" where
  "do_redispatch w t = (\<lambda>h. (of_raises (redispatch w h t), h @ [Redispatch t]))"

definition do_send_command :: "world \<Rightarrow> string \<Rightarrow> string io" where
  "do_send_command w c = (\<lambda>h. (send_command w h c, h @ [SendCommand c]))"

subsection \<open>Coroutines\<close>

text \<open>
  \<^verbatim>\<open>http3.AsyncClient.post\<close> is declared \<^verbatim>\<open>async def\<close>: calling it performs
  nothing and returns a coroutine object, and only \<^verbatim>\<open>await\<close> runs the request.
  A coroutine object has no attribute \<^verbatim>\<open>text\<close> or \<^verbatim>\<open>status_code\<close>: reading one
  raises \<^verbatim>\<open>AttributeError\<close>.
\<close>

datatype 'a coroutine = Coroutine "op list \<Rightarrow> (pyexc + 'a) \<times> op list"

definition client_post :: "world \<Rightarrow> request \<Rightarrow> (string \<times> int) coroutine" where
  "client_post w req = Coroutine (do_post w req)"

fun await :: "'a coroutine \<Rightarrow> 'a io" where
  "await (Coroutine m) = m"

definition coroutine_attr :: "'a coroutine \<Rightarrow> string \<Rightarrow> 'b io" where
  "coroutine_attr c name = io_raise AttributeError"

subsection \<open>\<^verbatim>\<open>class Rest\<close>\<close>

record rest =
  rest_transport :: string
  rest_device :: device_config
  rest_query_type :: string
  rest_target :: string
  rest_cred :: "cred attribute"
  rest_query :: constructed

definition Rest_init ::
  "configuration \<Rightarrow> string \<Rightarrow> device_config \<Rightarrow> string \<Rightarrow> string \<Rightarrow> rest io" where
  "Rest_init cfg transport device query_type target =
     io_bind (getattr (object_attrs cfg CredentialsObject) (credentials cfg)
                (dev_credential device)) (\<lambda>c.
     io_bind (getattr (object_attrs cfg ConstructObject) (Construct cfg device)
                query_type) (\<lambda>found.
     io_bind (expect found) (\<lambda>method.
     io_return \<lparr>rest_transport = transport, rest_device = device,
       rest_query_type = query_type, rest_target = target, rest_cred = c,
       rest_query = method transport target\<rparr>)))"

definition http3_caught :: "pyexc list" where
  "http3_caught =
     [ConnectTimeout, CookieConflict, DecodingError, InvalidURL, PoolTimeout,
      ProtocolError, ReadTimeout, RedirectBodyUnavailable, RedirectLoop, ResponseClosed,
      ResponseNotRead, StreamConsumed, Timeout, TooManyRedirects, WriteTimeout]"

definition endpoint_request :: "rest \<Rightarrow> string \<Rightarrow> string \<Rightarrow> request" where
  "endpoint_request self api_key path =
     \<lparr>req_address = dev_address (rest_device self), req_port = dev_port (rest_device self),
      req_path = path, req_api_key = api_key,
      req_json = rest_query self, req_timeout = 7\<rparr>"

text \<open>\<^verbatim>\<open>async def frr(self)\<close>: the headers read \<^verbatim>\<open>self.cred.password\<close>, the request
  is awaited, then its text and status read.\<close>

definition frr :: "world \<Rightarrow> configuration \<Rightarrow> rest \<Rightarrow> (string \<times> int) io" where
  "frr w cfg self =
     try_except
       (io_bind (expect (rest_cred self)) (\<lambda>c.
        io_bind (await (client_post w (endpoint_request self (cred_password c) ''/frr'')))
          (\<lambda>frr_response.
        io_bind (io_return (fst frr_response)) (\<lambda>response.
        io_bind (io_return (snd frr_response)) (\<lambda>status.
        io_return (response, status))))))
       http3_caught
       (\<lambda>rest_error. io_return (messages_general cfg, code_invalid cfg))"

text \<open>\<^verbatim>\<open>def bird(self)\<close>: the same statements without \<^verbatim>\<open>await\<close>, so
  \<^verbatim>\<open>bird_response\<close> is the coroutine object.\<close>

definition bird :: "world \<Rightarrow> configuration \<Rightarrow> rest \<Rightarrow> (string \<times> int) io" where
  "bird w cfg self =
     try_except
       (io_bind (expect (rest_cred self)) (\<lambda>c.
        let bird_response = client_post w (endpoint_request self (cred_password c) ''/bird'') in
        io_bind (coroutine_attr bird_response ''text'') (\<lambda>response.
        io_bind (coroutine_attr bird_response ''status_code'') (\<lambda>status.
        io_return (response, status)))))
       http3_caught
       (\<lambda>rest_error. io_return (messages_general cfg, code_invalid cfg))"

subsection \<open>\<^verbatim>\<open>class Netmiko\<close>\<close>

record netmiko =
  nk_device :: device_config
  nk_target :: string
  nk_cred :: cred
  nk_location :: string
  nk_nos :: string
  nk_command :: string
  nk_nm_host :: nm_params

text \<open>
  \<^verbatim>\<open>Netmiko.__init__\<close>. The unpacking
  \<^verbatim>\<open>self.location, self.nos, self.command = ...\<close> raises \<^verbatim>\<open>ValueError\<close> on a value
  that is not a triple. The credential is first used after it, when \<^verbatim>\<open>nm_host\<close>
  reads \<^verbatim>\<open>self.cred.username\<close>.
\<close>

definition Netmiko_init ::
  "configuration \<Rightarrow> string \<Rightarrow> device_config \<Rightarrow> string \<Rightarrow> string \<Rightarrow> netmiko io" where
  "Netmiko_init cfg transport device query_type target =
     io_bind (getattr (object_attrs cfg CredentialsObject) (credentials cfg)
                (dev_credential device)) (\<lambda>found_cred.
     io_bind (getattr (object_attrs cfg ConstructObject) (Construct cfg device)
                query_type) (\<lambda>found.
     io_bind (expect found) (\<lambda>method.
     case method transport target of
       Payload p \<Rightarrow> io_raise ValueError
     | CommandTuple loc nos_name command \<Rightarrow>
         io_bind (expect found_cred) (\<lambda>c.
         io_return \<lparr>nk_device = device, nk_target = target, nk_cred = c,
           nk_location = loc, nk_nos = nos_name, nk_command = command,
           nk_nm_host = \<lparr>nm_host_name = loc, nm_device_type = nos_name,
             nm_username = cred_username c, nm_password = cred_password c\<rparr>\<rparr>))))"

definition netmiko_caught :: "pyexc list" where
  "netmiko_caught =
     [NetMikoAuthenticationException, NetMikoTimeoutException, NetmikoAuthError,
      NetmikoTimeoutError]"

text \<open>\<^verbatim>\<open>Netmiko.direct\<close>: the session is opened inside the \<^verbatim>\<open>try\<close>.\<close>

definition direct :: "world \<Rightarrow> configuration \<Rightarrow> netmiko \<Rightarrow> (string \<times> int) io" where
  "direct w cfg self =
     try_except
       (io_bind (do_connect w (nk_nm_host self)) (\<lambda>nm_connect_direct.
        io_bind (do_send_command w (nk_command self)) (\<lambda>response.
        io_return (response, code_valid cfg))))
       netmiko_caught
       (\<lambda>netmiko_exception. io_return (messages_general cfg, code_invalid cfg))"

definition newline :: string where
  "newline = [CHR 0x0A]"

text \<open>
  Lines 215-223 of \<^verbatim>\<open>Netmiko.proxied\<close>, the \<^verbatim>\<open>if\<close>/\<^verbatim>\<open>elif\<close> that answers the
  prompts of the jump command. It returns the local \<^verbatim>\<open>proxy_output\<close>, which the second
  branch extends. Python's \<^verbatim>\<open>a in b\<close> on strings is \<open>sublist a b\<close>.
\<close>

definition answer_prompts :: "world \<Rightarrow> string \<Rightarrow> string \<Rightarrow> string io" where
  "answer_prompts w pw proxy_output =
     (if sublist ''Are you sure you want to continue connecting'' proxy_output
      then
        io_bind (do_write_channel w (''yes'' @ newline)) (\<lambda>_.
        io_bind (do_write_channel w (pw @ newline)) (\<lambda>_.
        io_return proxy_output))
      else if sublist ''assword'' proxy_output
      then
        io_bind (do_write_channel w (pw @ newline)) (\<lambda>_.
        io_bind (do_read_channel w) (\<lambda>more.
        io_return (proxy_output @ more)))
      else io_return proxy_output)"

text \<open>The dictionary \<^verbatim>\<open>nm_proxy\<close> of \<^verbatim>\<open>Netmiko.proxied\<close> (lines 194-200).\<close>

definition nm_proxy_of :: "proxy_config \<Rightarrow> nm_params" where
  "nm_proxy_of device_proxy =
     \<lparr>nm_host_name = proxy_address device_proxy,
      nm_device_type = proxy_nos device_proxy,
      nm_username = proxy_username device_proxy,
      nm_password = proxy_password device_proxy\<rparr>"

text \<open>
  \<^verbatim>\<open>Netmiko.proxied\<close>. \<^verbatim>\<open>getattr(proxies, self.device.proxy)\<close> raises
  \<^verbatim>\<open>TypeError\<close> when the attribute name is \<^verbatim>\<open>None\<close>; what it finds is first used
  when \<^verbatim>\<open>nm_proxy\<close> reads \<^verbatim>\<open>device_proxy.address\<close>. The lookup of the proxy, the
  session to it, the jump command, the sleep and the first read stand before the
  \<^verbatim>\<open>try\<close>.
\<close>

definition proxied :: "world \<Rightarrow> configuration \<Rightarrow> netmiko \<Rightarrow> (string \<times> int) io" where
  "proxied w cfg self =
     io_bind
       (case dev_proxy (nk_device self) of
          None \<Rightarrow> io_raise TypeError
        | Some name \<Rightarrow> getattr (object_attrs cfg ProxiesObject) (proxies cfg) name)
       (\<lambda>found.
     io_bind (expect found) (\<lambda>device_proxy.
     let nm_proxy = nm_proxy_of device_proxy in
     io_bind (do_connect w nm_proxy) (\<lambda>nm_connect_proxied.
     let nm_ssh_command = proxy_ssh_command device_proxy (nk_nm_host self) @ newline in
     io_bind (do_write_channel w nm_ssh_command) (\<lambda>_.
     io_bind (do_sleep 1) (\<lambda>_.
     io_bind (do_read_channel w) (\<lambda>proxy_output.
     try_except
       (io_bind (answer_prompts w (nm_password (nk_nm_host self)) proxy_output) (\<lambda>_.
        io_bind (do_redispatch w (nm_device_type (nk_nm_host self))) (\<lambda>_.
        io_bind (do_send_command w (nk_command self)) (\<lambda>response.
        io_return (response, code_valid cfg)))))
       netmiko_caught
       (\<lambda>netmiko_exception. io_return (messages_general cfg, code_invalid cfg))))))))"

subsection \<open>\<^verbatim>\<open>class Execute\<close>\<close>

record execute =
  input_data :: "string \<rightharpoonup> string"
  input_location :: string
  input_type :: string
  input_target :: string

definition getitem :: "(string \<rightharpoonup> 'a) \<Rightarrow> string \<Rightarrow> pyexc + 'a" where
  "getitem d k = (case d k of None \<Rightarrow> Inl KeyError | Some v \<Rightarrow> Inr v)"

definition Execute_init :: "(string \<rightharpoonup> string) \<Rightarrow> pyexc + execute" where
  "Execute_init lg_data =
     (case getitem lg_data ''location'' of Inl e \<Rightarrow> Inl e | Inr loc \<Rightarrow>
      case getitem lg_data ''type'' of Inl e \<Rightarrow> Inl e | Inr ty \<Rightarrow>
      case getitem lg_data ''target'' of Inl e \<Rightarrow> Inl e | Inr tgt \<Rightarrow>
        Inr \<lparr>input_data = lg_data, input_location = loc, input_type = ty,
          input_target = tgt\<rparr>)"

text \<open>Python's truth value of \<^verbatim>\<open>device_config.proxy\<close>: \<^verbatim>\<open>None\<close> and the empty
  string are false.\<close>

definition truthy :: "string option \<Rightarrow> bool" where
  "truthy p = (case p of None \<Rightarrow> False | Some s \<Rightarrow> s \<noteq> [])"

text \<open>
  \<^verbatim>\<open>await getattr(connection, device_config.nos)()\<close> on a \<^verbatim>\<open>Rest\<close> object: \<^verbatim>\<open>frr\<close>
  returns a coroutine, which is awaited; \<^verbatim>\<open>bird\<close> is an ordinary method, it runs at
  the call, and awaiting the pair it would return raises \<^verbatim>\<open>TypeError\<close>. The six
  attributes \<^verbatim>\<open>__init__\<close> stores are not callable. What the object inherits from
  \<^verbatim>\<open>object\<close> is found too and its call (or the \<^verbatim>\<open>await\<close> of what it returns) raises.
  Only a name that resolves to nothing raises \<^verbatim>\<open>AttributeError\<close>.
\<close>

definition call_rest_method ::
  "world \<Rightarrow> configuration \<Rightarrow> rest \<Rightarrow> string \<Rightarrow> (string \<times> int) io" where
  "call_rest_method w cfg connection name =
     (if name = ''frr'' then await (Coroutine (frr w cfg connection))
      else if name = ''bird''
      then io_bind (bird w cfg connection) (\<lambda>pair. io_raise TypeError)
      else if name \<in> set [''transport'', ''device'', ''query_type'', ''target'', ''cred'',
                           ''query'']
      then io_raise TypeError
      else
        (case object_attrs cfg RestObject name of
           Some e \<Rightarrow> io_raise e
         | None \<Rightarrow> io_raise AttributeError))"

text \<open>\<^verbatim>\<open>Execute.response\<close>. The validator's method is called on line 295; the first
  field read from \<^verbatim>\<open>device_config\<close> is \<^verbatim>\<open>device_config.nos\<close> on line 306.\<close>

definition response :: "world \<Rightarrow> configuration \<Rightarrow> execute \<Rightarrow> (string \<times> int) io" where
  "response w cfg self =
     io_bind (getattr (object_attrs cfg DevicesObject) (devices cfg) (input_location self))
       (\<lambda>found_device.
     io_bind (getattr (object_attrs cfg ValidateObject) (Validate cfg found_device)
                (input_type self)) (\<lambda>found.
     io_bind (expect found) (\<lambda>check.
     case check (input_target self) of (validity, msg, status) \<Rightarrow>
       if \<not> validity then io_return (msg, status)
       else
         let output = messages_general cfg in
         io_bind (expect found_device) (\<lambda>device_config.
         if is_rest cfg (dev_nos device_config)
         then
           io_bind (Rest_init cfg ''rest'' device_config (input_type self)
                      (input_target self)) (\<lambda>connection.
           io_bind (call_rest_method w cfg connection (dev_nos device_config))
             (\<lambda>(raw_output, status).
           io_bind (io_lift (parse (input_type self) raw_output (dev_nos device_config)))
             (\<lambda>output.
           io_return (output, status))))
         else if is_scrape cfg (dev_nos device_config)
         then
           io_bind (Netmiko_init cfg ''scrape'' device_config (input_type self)
                      (input_target self)) (\<lambda>connection.
           io_bind (if truthy (dev_proxy device_config)
                    then proxied w cfg connection
                    else direct w cfg connection) (\<lambda>(raw_output, status).
           io_bind (io_lift (parse (input_type self) raw_output (dev_nos device_config)))
             (\<lambda>output.
           io_return (output, status))))
         else io_return (output, status)))))"

subsection \<open>A concrete configuration and concrete worlds\<close>

definition example_cred :: cred where
  "example_cred = \<lparr>cred_username = ''lg'', cred_password = ''s3cret''\<rparr>"

definition example_device :: "string \<Rightarrow> string option \<Rightarrow> device_config" where
  "example_device nos_name via =
     \<lparr>dev_location = ''pop1'', dev_address = ''192.0.2.1'', dev_port = 8080,
      dev_nos = nos_name, dev_credential = ''default'', dev_proxy = via\<rparr>"

definition example_proxy :: proxy_config where
  "example_proxy =
     \<lparr>proxy_address = ''192.0.2.254'', proxy_username = ''jump'',
      proxy_password = ''jumppw'', proxy_nos = ''linux_ssh'',
      proxy_ssh_command = (\<lambda>p. ''ssh '' @ nm_username p @ ''@'' @ nm_host_name p)\<rparr>"

text \<open>\<^verbatim>\<open>dir(object())\<close> in CPython 3.7, and the three attributes an instance of a
  Python class has besides.\<close>

definition python_object_attrs :: "string list" where
  "python_object_attrs =
     [''__class__'', ''__delattr__'', ''__dir__'', ''__doc__'', ''__eq__'', ''__format__'',
      ''__ge__'', ''__getattribute__'', ''__gt__'', ''__hash__'', ''__init__'',
      ''__init_subclass__'', ''__le__'', ''__lt__'', ''__ne__'', ''__new__'', ''__reduce__'',
      ''__reduce_ex__'', ''__repr__'', ''__setattr__'', ''__sizeof__'', ''__str__'',
      ''__subclasshook__'', ''__dict__'', ''__module__'', ''__weakref__'']"

text \<open>Reading a field of such an attribute raises \<^verbatim>\<open>AttributeError\<close>; calling it as a
  query method raises \<^verbatim>\<open>TypeError\<close>, but for the two that look an attribute up under
  their argument.\<close>

definition example_object_attrs :: "namespace \<Rightarrow> string \<rightharpoonup> pyexc" where
  "example_object_attrs obj name =
     (if name \<in> set python_object_attrs
      then Some
        (if obj \<in> set [CredentialsObject, DevicesObject, ProxiesObject] then AttributeError
         else if obj = ValidateObject \<and> name \<in> set [''__delattr__'', ''__getattribute__'']
         then AttributeError
         else TypeError)
      else None)"

definition example_config :: "string \<Rightarrow> string option \<Rightarrow> configuration" where
  "example_config nos_name via =
     \<lparr>credentials = [''default'' \<mapsto> Entry example_cred],
      devices = [''pop1'' \<mapsto> Entry (example_device nos_name via)],
      proxies = [''jump1'' \<mapsto> Entry example_proxy],
      object_attrs = example_object_attrs,
      messages_general = ''Error connecting to device'',
      code_valid = 200,
      code_invalid = 415,
      is_rest = (\<lambda>n. n \<in> set [''frr'', ''bird'']),
      is_scrape = (\<lambda>n. n \<in> set [''cisco_ios'', ''cisco_xr'', ''juniper'']),
      Construct = (\<lambda>d. [''bgp_route'' \<mapsto> Entry (\<lambda>transport target.
         if transport = ''rest'' then Payload target
         else CommandTuple (dev_address d) (dev_nos d) (''show bgp '' @ target))]),
      Validate = (\<lambda>d. [''bgp_route'' \<mapsto> Entry (\<lambda>target.
         if target = [] then (False, ''No target'', 415) else (True, ''Valid'', 200))])\<rparr>"

definition example_request :: "string \<Rightarrow> execute" where
  "example_request target =
     \<lparr>input_data = [''location'' \<mapsto> ''pop1'', ''type'' \<mapsto> ''bgp_route'',
        ''target'' \<mapsto> target],
      input_location = ''pop1'', input_type = ''bgp_route'', input_target = target\<rparr>"

definition example_rest :: rest where
  "example_rest =
     \<lparr>rest_transport = ''rest'', rest_device = example_device ''bird'' None,
      rest_query_type = ''bgp_route'', rest_target = ''192.0.2.0/24'',
      rest_cred = Entry example_cred, rest_query = Payload ''192.0.2.0/24''\<rparr>"

definition example_netmiko :: netmiko where
  "example_netmiko =
     \<lparr>nk_device = example_device ''cisco_ios'' (Some ''jump1''),
      nk_target = ''192.0.2.0/24'', nk_cred = example_cred,
      nk_location = ''192.0.2.1'', nk_nos = ''cisco_ios'',
      nk_command = ''show bgp 192.0.2.0/24'',
      nk_nm_host = \<lparr>nm_host_name = ''192.0.2.1'', nm_device_type = ''cisco_ios'',
        nm_username = ''lg'', nm_password = ''s3cret''\<rparr>\<rparr>"

text \<open>A world in which the POST ends as \<open>post\<close>, opening a session ends as \<open>conn\<close>, the
  first read of the channel returns \<open>first_read\<close> and every later one \<open>later_read\<close>,
  and a command returns \<open>sent\<close>.\<close>

definition scripted ::
  "(pyexc + string \<times> int) \<Rightarrow> pyexc option \<Rightarrow> string \<Rightarrow> string \<Rightarrow> (pyexc + string) \<Rightarrow> world" where
  "scripted post conn first_read later_read sent =
     \<lparr>http_post = (\<lambda>h req. post),
      connect = (\<lambda>h p. conn),
      write_channel = (\<lambda>h s. None),
      read_channel = (\<lambda>h. Inr (if ReadChannel \<in> set h then later_read else first_read)),
      redispatch = (\<lambda>h t. None),
      send_command = (\<lambda>h c. sent)\<rparr>"

section \<open>Properties\<close>

subsection \<open>Splitting\<close>

lemma prefix_straddle:
  assumes "prefix d (p # ps @ d @ rest)" "hd d \<notin> set (tl d)"
  shows "prefix d (p # ps)"
proof (cases "length d \<le> length (p # ps)")
  case True
  from assms(1) have "prefix d ((p # ps) @ (d @ rest))" by simp
  with True show ?thesis
    by (metis prefix_length_prefix prefix_append prefix_order.refl)
next
  case False
  then have len: "length (p # ps) < length d" by simp
  from assms(1) obtain zs where zs: "p # ps @ d @ rest = d @ zs"
    by (auto simp: prefix_def)
  have "d ! length (p # ps) = (d @ zs) ! length (p # ps)"
    using len by (simp add: nth_append)
  also have "\<dots> = ((p # ps) @ d @ rest) ! length (p # ps)"
    using zs by simp
  also have "\<dots> = (d @ rest) ! 0"
    by (simp add: nth_append)
  also have "\<dots> = hd d"
    using len by (cases d) auto
  finally have "d ! length (p # ps) = hd d" .
  moreover have "d ! length (p # ps) \<in> set (tl d)"
    using len by (cases d) (auto simp: nth_Cons')
  ultimately show ?thesis using assms(2) by simp
qed

lemma split_from_first:
  assumes "d \<noteq> []" "hd d \<notin> set (tl d)"
  shows "\<not> sublist d pre \<Longrightarrow>
    split_from d acc (pre @ d @ rest) = (rev acc @ pre) # split_from d [] rest"
proof (induction pre arbitrary: acc)
  case Nil
  from assms(1) obtain c cs where d: "d = c # cs" by (cases d) auto
  show ?case by (simp add: d)
next
  case (Cons p ps)
  have np: "\<not> prefix d (p # ps @ d @ rest)"
  proof
    assume "prefix d (p # ps @ d @ rest)"
    then have "prefix d (p # ps)" using assms(2) by (rule prefix_straddle)
    then have "sublist d (p # ps)" by (auto simp: prefix_def sublist_def intro: exI[of _ "[]"])
    with Cons.prems show False by simp
  qed
  have ns: "\<not> sublist d ps" using Cons.prems by (simp add: sublist_Cons_right)
  show ?case using np Cons.IH[OF ns, of "p # acc"] by simp
qed

lemma split_from_none:
  "\<not> sublist d s \<Longrightarrow> split_from d acc s = [rev acc @ s]"
proof (induction s arbitrary: acc)
  case Nil
  then show ?case by simp
next
  case (Cons c cs)
  then have "\<not> prefix d (c # cs)" "\<not> sublist d cs" by (auto simp: sublist_Cons_right)
  with Cons.IH[of "c # acc"] show ?case by simp
qed

lemma split_from_nonempty: "split_from d acc s \<noteq> []"
  by (induction d acc s rule: split_from.induct) auto

text \<open>Joining the pieces with the separator gives the text back: no character is lost
  or invented by \<open>split_from\<close>.\<close>

lemma join_Cons: "ys \<noteq> [] \<Longrightarrow> join sep (x # ys) = x @ sep @ join sep ys"
  by (cases ys) auto

lemma join_split_from: "join d (split_from d acc s) = rev acc @ s"
proof (induction d acc s rule: split_from.induct)
  case (1 sep acc)
  then show ?case by simp
next
  case (2 sep acc c cs)
  show ?case
  proof (cases "sep \<noteq> [] \<and> prefix sep (c # cs)")
    case True
    then obtain zs where zs: "c # cs = sep @ zs" by (auto simp: prefix_def)
    then have dr: "drop (length sep) (c # cs) = zs" by simp
    have st: "split_from sep acc (c # cs) =
        rev acc # split_from sep [] (drop (length sep) (c # cs))"
      using True by simp
    from True 2(1) have ih: "join sep (split_from sep [] (drop (length sep) (c # cs))) =
        drop (length sep) (c # cs)"
      by simp
    have "join sep (split_from sep acc (c # cs)) =
        rev acc @ sep @ join sep (split_from sep [] (drop (length sep) (c # cs)))"
      unfolding st by (rule join_Cons) (rule split_from_nonempty)
    also have "\<dots> = rev acc @ sep @ zs"
      using ih by (simp add: dr)
    finally show ?thesis using zs by simp
  next
    case False
    with 2(2) show ?thesis by auto
  qed
qed

lemma split_afi_three:
  assumes "d \<noteq> []" "hd d \<notin> set (tl d)"
    and "\<not> sublist d pre" "\<not> sublist d s1" "\<not> sublist d s2"
  shows "split_afi d (pre @ d @ s1 @ d @ s2 @ d @ s3) = Inr (d @ s1 @ d @ s2)"
proof -
  have "split_from d [] (pre @ d @ s1 @ d @ s2 @ d @ s3) =
        pre # s1 # s2 # split_from d [] s3"
    using assms by (simp add: split_from_first)
  then show ?thesis using assms(1)
    by (simp add: split_afi_def split_def index_def)
qed

lemma split_afi_short:
  assumes "split d output = Inr pieces" "length pieces - 1 < 2"
  shows "split_afi d output = Inl IndexError"
  using assms by (auto simp: split_afi_def index_def split: sum.splits)

subsection \<open>parse\<close>

lemma cisco_ios_delimiter:
  "''For address family: '' \<noteq> [] \<and>
   hd ''For address family: '' \<notin> set (tl ''For address family: '')"
  by simp

lemma cisco_xr_delimiter:
  "''Address Family: '' \<noteq> [] \<and> hd ''Address Family: '' \<notin> set (tl ''Address Family: '')"
  by simp

text \<open>
  Claim C8. For a community or AS-path lookup on \<^verbatim>\<open>cisco_ios\<close> (delimiter
  \<^verbatim>\<open>"For address family: "\<close>) or \<^verbatim>\<open>cisco_xr\<close> (delimiter \<^verbatim>\<open>"Address Family: "\<close>),
  on a raw text made of a preamble, the delimiter, a first section, the delimiter, a
  second section, the delimiter and whatever follows, where the delimiter occurs in
  neither the preamble nor the first two sections, \<^verbatim>\<open>Execute.parse\<close> returns
  delimiter + first section + delimiter + second section: the preamble and everything
  from the third delimiter on are dropped.
\<close>

theorem parse_three_sections:
  assumes "ty \<in> set [''bgp_community'', ''bgp_aspath'']"
    and "(nos_name, d) \<in> set [(''cisco_ios'', ''For address family: ''),
                               (''cisco_xr'', ''Address Family: '')]"
    and "\<not> sublist d pre" "\<not> sublist d s1" "\<not> sublist d s2"
  shows "parse ty (pre @ d @ s1 @ d @ s2 @ d @ s3) nos_name = Inr (d @ s1 @ d @ s2)"
proof -
  from assms(2) consider
      "nos_name = ''cisco_ios''" "d = ''For address family: ''"
    | "nos_name = ''cisco_xr''" "d = ''Address Family: ''"
    by auto
  then show ?thesis
  proof cases
    case 1
    have "split_afi d (pre @ d @ s1 @ d @ s2 @ d @ s3) = Inr (d @ s1 @ d @ s2)"
      using assms(3-5) cisco_ios_delimiter unfolding 1(2) by (intro split_afi_three) simp_all
    then show ?thesis using assms(1) 1 by (simp add: parse_def)
  next
    case 2
    have "split_afi d (pre @ d @ s1 @ d @ s2 @ d @ s3) = Inr (d @ s1 @ d @ s2)"
      using assms(3-5) cisco_xr_delimiter unfolding 2(2) by (intro split_afi_three) simp_all
    then show ?thesis using assms(1) 2 by (simp add: parse_def)
  qed
qed

theorem parse_three_sections_witness:
  "parse ''bgp_community''
     ''BGP table For address family: IPv4 Unicast 65000:1 For address family: IPv6 Unicast 65000:1 For address family: VPNv4 Unicast''
     ''cisco_ios'' =
   Inr ''For address family: IPv4 Unicast 65000:1 For address family: IPv6 Unicast 65000:1 ''"
proof -
  have a: "''bgp_community'' \<in> set [''bgp_community'', ''bgp_aspath'']" by simp
  have b: "(''cisco_ios'', ''For address family: '') \<in>
    set [(''cisco_ios'', ''For address family: ''), (''cisco_xr'', ''Address Family: '')]"
    by simp
  have c: "\<not> sublist ''For address family: '' ''BGP table ''" by code_simp
  have d: "\<not> sublist ''For address family: '' ''IPv4 Unicast 65000:1 ''" by code_simp
  have e: "\<not> sublist ''For address family: '' ''IPv6 Unicast 65000:1 ''" by code_simp
  show ?thesis
    using parse_three_sections [OF a b c d e, of "''VPNv4 Unicast''"] by simp
qed

text \<open>
  Claim C9. \<^verbatim>\<open>Execute.parse\<close> returns the raw text unchanged, for every text, when
  the query type is neither \<^verbatim>\<open>bgp_community\<close> nor \<^verbatim>\<open>bgp_aspath\<close>, and also when
  the NOS is neither \<^verbatim>\<open>cisco_ios\<close> nor \<^verbatim>\<open>cisco_xr\<close>.
\<close>

theorem parse_identity:
  assumes "ty \<notin> set [''bgp_community'', ''bgp_aspath''] \<or>
           nos_name \<notin> set [''cisco_ios'', ''cisco_xr'']"
  shows "parse ty output nos_name = Inr output"
  using assms by (auto simp: parse_def)

theorem parse_identity_witness:
  "parse ''bgp_route'' ''For address family: IPv4 Unicast'' ''cisco_ios'' =
     Inr ''For address family: IPv4 Unicast'' \<and>
   parse ''bgp_community'' ''inet.0: 12 destinations'' ''juniper'' =
     Inr ''inet.0: 12 destinations''"
proof -
  have a: "''bgp_route'' \<notin> set [''bgp_community'', ''bgp_aspath''] \<or>
           ''cisco_ios'' \<notin> set [''cisco_ios'', ''cisco_xr'']" by simp
  have b: "''bgp_community'' \<notin> set [''bgp_community'', ''bgp_aspath''] \<or>
           ''juniper'' \<notin> set [''cisco_ios'', ''cisco_xr'']" by simp
  show ?thesis
    using parse_identity [OF a] parse_identity [OF b] by simp
qed

text \<open>
  Claim C2, as stated, fails. On a text with the delimiter once, \<^verbatim>\<open>split\<close> returns two
  pieces, so there is one section after the delimiter; \<^verbatim>\<open>parse\<close> then raises
  \<^verbatim>\<open>IndexError\<close> at \<^verbatim>\<open>output.split(delimiter)[2]\<close>, the out-of-range fault the
  claim excludes. The module defines no other failure for this case.
\<close>

theorem parse_short_counterexample:
  "split ''For address family: '' ''For address family: IPv4 Unicast'' =
     Inr [[], ''IPv4 Unicast''] \<and>
   parse ''bgp_community'' ''For address family: IPv4 Unicast'' ''cisco_ios'' = Inl IndexError"
  by code_simp

text \<open>
  Claim C2, amended. For a community or AS-path lookup on \<^verbatim>\<open>cisco_ios\<close> or
  \<^verbatim>\<open>cisco_xr\<close>, when splitting the raw text on the NOS's delimiter leaves fewer than
  two sections after the first piece, \<^verbatim>\<open>Execute.parse\<close> raises \<^verbatim>\<open>IndexError\<close>.
\<close>

theorem parse_short_index_error:
  assumes "ty \<in> set [''bgp_community'', ''bgp_aspath'']"
    and "(nos_name, d) \<in> set [(''cisco_ios'', ''For address family: ''),
                               (''cisco_xr'', ''Address Family: '')]"
    and "split d output = Inr pieces" "length pieces - 1 < 2"
  shows "parse ty output nos_name = Inl IndexError"
proof -
  have "split_afi d output = Inl IndexError"
    using assms(3,4) by (rule split_afi_short)
  then show ?thesis using assms(1,2) by (auto simp: parse_def)
qed

theorem parse_short_index_error_witness:
  "parse ''bgp_aspath'' ''% No matching routes'' ''cisco_xr'' = Inl IndexError"
proof -
  have a: "''bgp_aspath'' \<in> set [''bgp_community'', ''bgp_aspath'']" by simp
  have b: "(''cisco_xr'', ''Address Family: '') \<in>
    set [(''cisco_ios'', ''For address family: ''), (''cisco_xr'', ''Address Family: '')]"
    by simp
  have c: "split ''Address Family: '' ''% No matching routes'' = Inr [''% No matching routes'']"
    by code_simp
  have d: "length [''% No matching routes''] - 1 < 2" by simp
  show ?thesis
    using parse_short_index_error [OF a b c d] .
qed

lemmas io_defs =
  io_return_def io_raise_def io_bind_def try_except_def io_lift_def getattr_def
  expect_def of_raises_def do_post_def do_connect_def do_write_channel_def do_sleep_def
  do_read_channel_def do_redispatch_def do_send_command_def

subsection \<open>The REST executors\<close>

lemma bird_raises:
  assumes "rest_cred self = Entry c"
  shows "bird w cfg self h = (Inl AttributeError, h)"
  using assms by (simp add: bird_def coroutine_attr_def http3_caught_def Let_def io_defs)

lemma frr_completed:
  assumes "rest_cred self = Entry c"
    and "http_post w h (endpoint_request self (cred_password c) ''/frr'') = Inr (body, code)"
  shows "frr w cfg self h =
    (Inr (body, code), h @ [Post (endpoint_request self (cred_password c) ''/frr'')])"
  using assms by (simp add: frr_def client_post_def io_defs)

lemma frr_transport_error:
  assumes "rest_cred self = Entry c"
    and "http_post w h (endpoint_request self (cred_password c) ''/frr'') = Inl e"
    and "e \<in> set http3_caught"
  shows "frr w cfg self h =
    (Inr (messages_general cfg, code_invalid cfg),
     h @ [Post (endpoint_request self (cred_password c) ''/frr'')])"
  using assms by (simp add: frr_def client_post_def io_defs)

lemma frr_other_error:
  assumes "rest_cred self = Entry c"
    and "http_post w h (endpoint_request self (cred_password c) ''/frr'') = Inl e"
    and "e \<notin> set http3_caught"
  shows "frr w cfg self h =
    (Inl e, h @ [Post (endpoint_request self (cred_password c) ''/frr'')])"
  using assms by (simp add: frr_def client_post_def io_defs)

lemma example_rest_cred: "rest_cred example_rest = Entry example_cred"
  by (simp add: example_rest_def)

lemma example_cred_password: "cred_password example_cred = ''s3cret''"
  by (simp add: example_cred_def)

text \<open>
  Claim C1 at a failing input. \<^verbatim>\<open>ConnectTimeout\<close> is one of the exception types both
  \<^verbatim>\<open>except\<close> clauses name. In a world whose POST ends in \<^verbatim>\<open>ConnectTimeout\<close>,
  \<^verbatim>\<open>Rest.frr\<close> returns the general message with the invalid status, while
  \<^verbatim>\<open>Rest.bird\<close>, which never awaits the request, raises \<^verbatim>\<open>AttributeError\<close> to its
  caller without performing any operation.
\<close>

theorem bird_connect_timeout:
  "ConnectTimeout \<in> set http3_caught \<and>
   frr (scripted (Inl ConnectTimeout) None [] [] (Inr [])) (example_config ''frr'' None)
     example_rest [] =
     (Inr (''Error connecting to device'', 415),
      [Post (endpoint_request example_rest ''s3cret'' ''/frr'')]) \<and>
   bird (scripted (Inl ConnectTimeout) None [] [] (Inr [])) (example_config ''bird'' None)
     example_rest [] = (Inl AttributeError, [])"
  by (simp add: bird_raises [OF example_rest_cred] http3_caught_def
      frr_transport_error [OF example_rest_cred] example_cred_password
      example_config_def scripted_def)

text \<open>
  Claim C4 at a failing input. On a completed response with status 200 and text
  \<^verbatim>\<open>ok\<close>, \<^verbatim>\<open>Rest.frr\<close> returns \<^verbatim>\<open>("ok", 200)\<close> after one POST; \<^verbatim>\<open>Rest.bird\<close>
  reads \<^verbatim>\<open>text\<close> from the coroutine it did not await, raises \<^verbatim>\<open>AttributeError\<close>
  and performs no POST.
\<close>

theorem frr_bird_differ:
  "frr (scripted (Inr (''ok'', 200)) None [] [] (Inr [])) (example_config ''frr'' None)
     example_rest [] =
     (Inr (''ok'', 200), [Post (endpoint_request example_rest ''s3cret'' ''/frr'')]) \<and>
   bird (scripted (Inr (''ok'', 200)) None [] [] (Inr [])) (example_config ''bird'' None)
     example_rest [] = (Inl AttributeError, [])"
  by (simp add: bird_raises [OF example_rest_cred] frr_completed [OF example_rest_cred]
      example_cred_password scripted_def)

subsection \<open>The Netmiko executors\<close>

lemma direct_connect_caught:
  assumes "connect w h (nk_nm_host self) = Some e" "e \<in> set netmiko_caught"
  shows "direct w cfg self h =
    (Inr (messages_general cfg, code_invalid cfg), h @ [ConnectHandler (nk_nm_host self)])"
  using assms by (simp add: direct_def io_defs)

lemma proxied_connect_escapes:
  assumes "dev_proxy (nk_device self) = Some name"
    and "proxies cfg name = Some (Entry device_proxy)"
    and "connect w h (nm_proxy_of device_proxy) = Some e"
  shows "proxied w cfg self h = (Inl e, h @ [ConnectHandler (nm_proxy_of device_proxy)])"
  using assms by (simp add: proxied_def nm_proxy_of_def Let_def io_defs)

text \<open>
  Claim C3 at a failing input. \<^verbatim>\<open>NetMikoAuthenticationException\<close> is one of the
  exception types the \<^verbatim>\<open>except\<close> clause of \<^verbatim>\<open>Netmiko.proxied\<close> names. When opening
  the session to the proxy raises it, \<^verbatim>\<open>proxied\<close> lets it reach the caller, since
  \<^verbatim>\<open>ConnectHandler(**nm_proxy)\<close> stands before the \<^verbatim>\<open>try\<close>; \<^verbatim>\<open>Netmiko.direct\<close>,
  which opens its session inside the \<^verbatim>\<open>try\<close>, returns the general message with the
  invalid status in the same world.
\<close>

theorem proxied_bastion_failure:
  "NetMikoAuthenticationException \<in> set netmiko_caught \<and>
   proxied (scripted (Inr ([], 200)) (Some NetMikoAuthenticationException) [] [] (Inr []))
     (example_config ''cisco_ios'' (Some ''jump1'')) example_netmiko [] =
     (Inl NetMikoAuthenticationException, [ConnectHandler (nm_proxy_of example_proxy)]) \<and>
   direct (scripted (Inr ([], 200)) (Some NetMikoAuthenticationException) [] [] (Inr []))
     (example_config ''cisco_ios'' None) example_netmiko [] =
     (Inr (''Error connecting to device'', 415),
      [ConnectHandler (nk_nm_host example_netmiko)])"
proof -
  have "dev_proxy (nk_device example_netmiko) = Some ''jump1''"
    by (simp add: example_netmiko_def example_device_def)
  moreover have "proxies (example_config ''cisco_ios'' (Some ''jump1'')) ''jump1'' =
      Some (Entry example_proxy)"
    by (simp add: example_config_def)
  ultimately show ?thesis
    by (simp add: proxied_connect_escapes direct_connect_caught netmiko_caught_def
        scripted_def example_config_def)
qed

text \<open>
  After the lookup of the proxy, a session that opens, a jump command that is written
  and a first read that returns, \<^verbatim>\<open>Netmiko.proxied\<close> is its \<^verbatim>\<open>try\<close> statement, run
  after these four operations.
\<close>

lemma proxied_prelude:
  assumes px: "dev_proxy (nk_device self) = Some name"
      "proxies cfg name = Some (Entry device_proxy)"
    and co: "connect w h (nm_proxy_of device_proxy) = None"
    and wr: "write_channel w (h @ [ConnectHandler (nm_proxy_of device_proxy)])
        (proxy_ssh_command device_proxy (nk_nm_host self) @ newline) = None"
    and rd: "read_channel w (h @ [ConnectHandler (nm_proxy_of device_proxy),
        WriteChannel (proxy_ssh_command device_proxy (nk_nm_host self) @ newline),
        Sleep 1]) = Inr out"
  shows "proxied w cfg self h =
     try_except
       (io_bind (answer_prompts w (nm_password (nk_nm_host self)) out) (\<lambda>_.
        io_bind (do_redispatch w (nm_device_type (nk_nm_host self))) (\<lambda>_.
        io_bind (do_send_command w (nk_command self)) (\<lambda>response.
        io_return (response, code_valid cfg)))))
       netmiko_caught
       (\<lambda>netmiko_exception. io_return (messages_general cfg, code_invalid cfg))
       (h @ [ConnectHandler (nm_proxy_of device_proxy),
          WriteChannel (proxy_ssh_command device_proxy (nk_nm_host self) @ newline),
          Sleep 1, ReadChannel])"
  using px co wr rd
  by (simp add: proxied_def Let_def io_bind_def io_return_def of_raises_def do_connect_def
      do_write_channel_def do_sleep_def do_read_channel_def getattr_def expect_def)

text \<open>
  Whatever the \<^verbatim>\<open>try\<close> block raises of the four caught types, at the answers to the
  prompts, at the redispatch or at the command, becomes the general message with the
  invalid status.
\<close>

lemma proxied_try_block_caught:
  assumes px: "dev_proxy (nk_device self) = Some name"
      "proxies cfg name = Some (Entry device_proxy)"
    and co: "connect w h (nm_proxy_of device_proxy) = None"
    and wr: "write_channel w (h @ [ConnectHandler (nm_proxy_of device_proxy)])
        (proxy_ssh_command device_proxy (nk_nm_host self) @ newline) = None"
    and rd: "read_channel w (h @ [ConnectHandler (nm_proxy_of device_proxy),
        WriteChannel (proxy_ssh_command device_proxy (nk_nm_host self) @ newline),
        Sleep 1]) = Inr out"
    and body: "io_bind (answer_prompts w (nm_password (nk_nm_host self)) out) (\<lambda>_.
        io_bind (do_redispatch w (nm_device_type (nk_nm_host self))) (\<lambda>_.
        io_bind (do_send_command w (nk_command self)) (\<lambda>response.
        io_return (response, code_valid cfg))))
       (h @ [ConnectHandler (nm_proxy_of device_proxy),
          WriteChannel (proxy_ssh_command device_proxy (nk_nm_host self) @ newline),
          Sleep 1, ReadChannel]) = (Inl e, h')"
    and e: "e \<in> set netmiko_caught"
  shows "proxied w cfg self h = (Inr (messages_general cfg, code_invalid cfg), h')"
  unfolding proxied_prelude [OF px co wr rd]
  using body e by (simp add: try_except_def io_return_def)

text \<open>The password written in answer to a prompt raises a caught exception: converted.\<close>

lemma answer_prompts_write_raises:
  assumes "\<not> sublist ''Are you sure you want to continue connecting'' out"
    and "sublist ''assword'' out"
    and "write_channel w h (pw @ newline) = Some e"
  shows "answer_prompts w pw out h = (Inl e, h @ [WriteChannel (pw @ newline)])"
  using assms by (simp add: answer_prompts_def io_defs)

subsection \<open>The orchestrator\<close>

text \<open>
  Claim C6. When the validator's method rejects the target (validity false),
  \<^verbatim>\<open>Execute.response\<close> returns exactly the validator's message and status, and the
  list of operations is unchanged: nothing is posted, no session is opened, neither
  \<^verbatim>\<open>Rest\<close> nor \<^verbatim>\<open>Netmiko\<close> is constructed (the result does not depend on the
  credentials, on \<^verbatim>\<open>Construct\<close> or on the world) and \<^verbatim>\<open>parse\<close> is not applied.
\<close>

theorem response_invalid_short_circuit:
  assumes "devices cfg (input_location self) = Some (Entry device)"
    and "Validate cfg (Entry device) (input_type self) = Some (Entry check)"
    and "check (input_target self) = (False, msg, status)"
  shows "response w cfg self h = (Inr (msg, status), h)"
  using assms by (simp add: response_def io_defs)

theorem response_invalid_short_circuit_witness:
  "response (scripted (Inl ConnectTimeout) (Some NetmikoTimeoutError) [] [] (Inl NetmikoAuthError))
     (example_config ''frr'' None) (example_request []) [] = (Inr (''No target'', 415), [])"
proof -
  have a: "devices (example_config ''frr'' None) (input_location (example_request [])) =
      Some (Entry (example_device ''frr'' None))"
    by (simp add: example_config_def example_request_def)
  have b: "Validate (example_config ''frr'' None) (Entry (example_device ''frr'' None))
      (input_type (example_request [])) =
      Some (Entry (\<lambda>target.
        if target = [] then (False, ''No target'', 415) else (True, ''Valid'', 200)))"
    by (simp add: example_config_def example_request_def)
  have c: "(\<lambda>target. if target = [] then (False, ''No target'', 415) else (True, ''Valid'', 200))
      (input_target (example_request [])) = (False, ''No target'', 415)"
    by (simp add: example_request_def)
  show ?thesis
    using response_invalid_short_circuit [OF a b c] .
qed




subsection \<open>Attribute lookups\<close>


lemma getattr_found:
  "getattr inherited attrs name h = (r, h') \<Longrightarrow> h' = h"
  by (auto simp: getattr_def io_raise_def io_return_def split: option.splits)






text \<open>
  A name that every object resolves is not absent. With \<^verbatim>\<open>__doc__\<close> as query type the
  lookup on the \<^verbatim>\<open>Validate\<close> object succeeds and the call of what it finds raises.
\<close>

lemma response_dunder_query_type:
  "response (scripted (Inr (''ok'', 200)) None [] [] (Inr []))
     (example_config ''frr'' None)
     ((example_request ''192.0.2.1'')\<lparr>input_type := ''__doc__''\<rparr>) [] =
   (Inl TypeError, [])"
  by (simp add: response_def io_defs example_config_def example_request_def
      example_object_attrs_def python_object_attrs_def)



subsection \<open>The prompts of the jump command\<close>

lemma answer_prompts_quiet:
  assumes wr: "\<And>h s. write_channel w h s = None"
    and rd: "\<And>h. read_channel w h = Inr (reads h)"
  shows "answer_prompts w pw seen h =
     (if sublist ''Are you sure you want to continue connecting'' seen
      then (Inr seen, h @ [WriteChannel (''yes'' @ newline), WriteChannel (pw @ newline)])
      else if sublist ''assword'' seen
      then (Inr (seen @ reads (h @ [WriteChannel (pw @ newline)])),
            h @ [WriteChannel (pw @ newline), ReadChannel])
      else (Inr seen, h))"
  by (simp add: answer_prompts_def io_defs wr rd)

text \<open>
  Claim C7. In a world where no channel operation raises, the prompts are answered in
  a fixed order of priority. If the text read contains the host-key question, \<^verbatim>\<open>yes\<close>
  followed by the line feed (character 10) and then the password followed by the line
  feed are written, with no read between them. Otherwise, if it contains
  \<^verbatim>\<open>assword\<close>, the password followed by the line feed is written once and the channel
  is read once more, the text read being appended to \<^verbatim>\<open>proxy_output\<close>. Otherwise
  nothing is written. The operations of \<^verbatim>\<open>Netmiko.proxied\<close> are then: the session to
  the proxy, the jump command followed by the line feed, the sleep, the first read,
  these answers, the redispatch and the command.
\<close>

theorem proxied_prompt_priority:
  assumes wr: "\<And>h s. write_channel w h s = None"
    and rd: "\<And>h. read_channel w h = Inr (reads h)"
    and co: "\<And>h p. connect w h p = None"
    and re: "\<And>h t. redispatch w h t = None"
    and se: "\<And>h c. send_command w h c = Inr (sent h c)"
    and px: "dev_proxy (nk_device self) = Some name"
      "proxies cfg name = Some (Entry device_proxy)"
    and out: "out = reads (h @ [ConnectHandler (nm_proxy_of device_proxy),
        WriteChannel (proxy_ssh_command device_proxy (nk_nm_host self) @ [CHR 0x0A]),
        Sleep 1])"
  shows "answer_prompts w pw seen h =
     (if sublist ''Are you sure you want to continue connecting'' seen
      then (Inr seen,
            h @ [WriteChannel (''yes'' @ [CHR 0x0A]), WriteChannel (pw @ [CHR 0x0A])])
      else if sublist ''assword'' seen
      then (Inr (seen @ reads (h @ [WriteChannel (pw @ [CHR 0x0A])])),
            h @ [WriteChannel (pw @ [CHR 0x0A]), ReadChannel])
      else (Inr seen, h)) \<and>
   snd (proxied w cfg self h) =
     h @ [ConnectHandler (nm_proxy_of device_proxy),
          WriteChannel (proxy_ssh_command device_proxy (nk_nm_host self) @ [CHR 0x0A]),
          Sleep 1, ReadChannel] @
     (if sublist ''Are you sure you want to continue connecting'' out
      then [WriteChannel (''yes'' @ [CHR 0x0A]),
            WriteChannel (nm_password (nk_nm_host self) @ [CHR 0x0A])]
      else if sublist ''assword'' out
      then [WriteChannel (nm_password (nk_nm_host self) @ [CHR 0x0A]), ReadChannel]
      else []) @
     [Redispatch (nm_device_type (nk_nm_host self)), SendCommand (nk_command self)]"
proof -
  note ap = answer_prompts_quiet [OF wr rd]
  have out': "reads (h @ [ConnectHandler (nm_proxy_of device_proxy),
        WriteChannel (proxy_ssh_command device_proxy (nk_nm_host self) @ newline),
        Sleep 1]) = out"
    by (simp add: out newline_def)
  have rd': "read_channel w (h @ [ConnectHandler (nm_proxy_of device_proxy),
        WriteChannel (proxy_ssh_command device_proxy (nk_nm_host self) @ newline),
        Sleep 1]) = Inr out"
    by (simp only: rd out')
  have "snd (proxied w cfg self h) =
     h @ [ConnectHandler (nm_proxy_of device_proxy),
          WriteChannel (proxy_ssh_command device_proxy (nk_nm_host self) @ newline),
          Sleep 1, ReadChannel] @
     (if sublist ''Are you sure you want to continue connecting'' out
      then [WriteChannel (''yes'' @ newline),
            WriteChannel (nm_password (nk_nm_host self) @ newline)]
      else if sublist ''assword'' out
      then [WriteChannel (nm_password (nk_nm_host self) @ newline), ReadChannel]
      else []) @
     [Redispatch (nm_device_type (nk_nm_host self)), SendCommand (nk_command self)]"
    unfolding proxied_prelude [OF px co wr rd']
    by (simp add: try_except_def io_bind_def io_return_def of_raises_def do_redispatch_def
        do_send_command_def ap re se)
  with ap [of pw seen h] show ?thesis by (simp add: newline_def)
qed

theorem proxied_prompt_priority_witness:
  "snd (proxied (scripted (Inr ([], 200)) None ''lg password: '' ''router#'' (Inr ''route info''))
     (example_config ''cisco_ios'' (Some ''jump1'')) example_netmiko []) =
     [ConnectHandler (nm_proxy_of example_proxy),
      WriteChannel (''ssh lg@192.0.2.1'' @ [CHR 0x0A]), Sleep 1, ReadChannel,
      WriteChannel (''s3cret'' @ [CHR 0x0A]), ReadChannel,
      Redispatch ''cisco_ios'', SendCommand ''show bgp 192.0.2.0/24''] \<and>
   answer_prompts (scripted (Inr ([], 200)) None ''lg password: '' ''router#'' (Inr ''route info''))
     ''s3cret'' ''Are you sure you want to continue connecting (yes/no)? Password: '' [] =
     (Inr ''Are you sure you want to continue connecting (yes/no)? Password: '',
      [WriteChannel (''yes'' @ [CHR 0x0A]), WriteChannel (''s3cret'' @ [CHR 0x0A])])"
proof -
  let ?w = "scripted (Inr ([], 200)) None ''lg password: '' ''router#'' (Inr ''route info'')"
  let ?cfg = "example_config ''cisco_ios'' (Some ''jump1'')"
  let ?reads = "\<lambda>h. if ReadChannel \<in> set h then ''router#'' else ''lg password: ''"
  let ?sent = "\<lambda>(h::op list) (c::string). ''route info''"
  let ?out = "?reads ([] @ [ConnectHandler (nm_proxy_of example_proxy),
        WriteChannel (proxy_ssh_command example_proxy (nk_nm_host example_netmiko) @
          [CHR 0x0A]),
        Sleep 1])"
  have wr: "\<And>h s. write_channel ?w h s = None" by (simp add: scripted_def)
  have rd: "\<And>h. read_channel ?w h = Inr (?reads h)" by (simp add: scripted_def)
  have co: "\<And>h p. connect ?w h p = None" by (simp add: scripted_def)
  have re: "\<And>h t. redispatch ?w h t = None" by (simp add: scripted_def)
  have se: "\<And>h c. send_command ?w h c = Inr (?sent h c)" by (simp add: scripted_def)
  have p1: "dev_proxy (nk_device example_netmiko) = Some ''jump1''"
    by (simp add: example_netmiko_def example_device_def)
  have p2: "proxies ?cfg ''jump1'' = Some (Entry example_proxy)"
    by (simp add: example_config_def)
  have out: "?out = ?out" by (rule refl)
  have s1: "\<not> sublist ''Are you sure you want to continue connecting'' ''lg password: ''"
    by code_simp
  have s2: "sublist ''assword'' ''lg password: ''" by code_simp
  have s3: "sublist ''Are you sure you want to continue connecting''
      ''Are you sure you want to continue connecting (yes/no)? Password: ''"
    by code_simp
  show ?thesis
    using proxied_prompt_priority [of ?w ?reads ?sent example_netmiko "''jump1''" ?cfg
        example_proxy ?out "[]" "''s3cret''"
        "''Are you sure you want to continue connecting (yes/no)? Password: ''",
        OF wr rd co re se p1 p2 out] s1 s2 s3
    by (simp add: example_netmiko_def example_proxy_def)
qed

end
